theory Spec2Isabelle
  imports
    Complex_Main
    "HOL-Library.Char_ord"
    "HOL-Library.List_Lexorder"
    "HOL-Library.Sublist"
    "HOL-Library.AList"
    "HOL-Library.Multiset"
begin

section \<open>Data model of \<open>load_data_to_db.py\<close>\<close>

text \<open>
  A cell of the DataFrame, and a component of a tuple handed to \<open>executemany\<close>:
  an integer, a floating-point number, the not-a-number marker pandas uses for a missing
  cell, a string, or Python's \<open>None\<close>.
\<close>

datatype pyval = PyInt int | Num real | NaN | Str string | PyNone

text \<open>\<open>pd.isna(value)\<close> on a scalar.\<close>

definition isna :: "pyval \<Rightarrow> bool" where
  "isna v = (v = NaN \<or> v = PyNone)"

text \<open>
  The DataFrame \<open>df\<close>: its column index and its rows in file order. The CSV reader
  renames repeated header names, so a row holds one cell per column name; a row is
  read only at names of \<open>columns\<close>.
\<close>

type_synonym row = "string \<Rightarrow> pyval"

record dataframe =
  columns :: "string list"
  rows :: "row list"

text \<open>
  The exceptions of the second \<open>try\<close> block: \<open>KeyError\<close> with the labels that were not
  found, and \<open>OverflowError\<close> from the database driver.
\<close>

datatype py_error = KeyError "string list" | OverflowError

section \<open>Reference resolver: the zone set\<close>

text \<open>
  \<open>zone_columns = [col for col in df.columns if '_temp' in col and col != 'Air_temperature']\<close>
\<close>

definition zone_columns :: "dataframe \<Rightarrow> string list" where
  "zone_columns df =
     filter (\<lambda>col. sublist ''_temp'' col \<and> col \<noteq> ''Air_temperature'') (columns df)"

text \<open>\<open>col.split('_')[0]\<close>: the text before the first underscore (all of it when there is none).\<close>

definition split_first :: "string \<Rightarrow> string" where
  "split_first col = takeWhile (\<lambda>c. c \<noteq> CHR ''_'') col"

text \<open>\<open>zone_names = sorted(list(set([col.split('_')[0] for col in zone_columns])))\<close>\<close>

definition zone_names :: "dataframe \<Rightarrow> string list" where
  "zone_names df = sorted_list_of_set (set (map split_first (zone_columns df)))"

section \<open>Source loader\<close>

text \<open>
  What \<open>pd.read_csv(csv_path)\<close> does: it raises \<open>FileNotFoundError\<close> when the path
  does not exist, \<open>pd.errors.EmptyDataError\<close> when the file has no columns to parse,
  some other exception when the file cannot be parsed, and returns a frame otherwise
  (a file with a header line and no data line gives a frame with no rows).
\<close>

datatype read_csv_result =
    FileNotFoundError
  | EmptyDataError
  | OtherReadError
  | Loaded dataframe

text \<open>
  The three \<open>except\<close> branches of the load block, each ending in \<open>exit()\<close>:
  \<open>except FileNotFoundError\<close>, \<open>except pd.errors.EmptyDataError\<close> and
  \<open>except Exception\<close>, under the names the specification gives them.
\<close>

datatype load_failure = SourceNotFound | SourceEmpty | SourceMalformed

text \<open>A parsed date-time value (a pandas Timestamp has a four-digit year).\<close>

record datetime =
  dt_year :: nat
  dt_month :: nat
  dt_day :: nat
  dt_hour :: nat
  dt_minute :: nat
  dt_second :: nat

definition digit :: "nat \<Rightarrow> char" where
  "digit n = ''0123456789'' ! (n mod 10)"

definition pad2 :: "nat \<Rightarrow> string" where
  "pad2 n = [digit (n div 10), digit n]"

definition pad4 :: "nat \<Rightarrow> string" where
  "pad4 n = [digit (n div 1000), digit (n div 100), digit (n div 10), digit n]"

text \<open>\<open>strftime('%Y-%m-%d %H:%M:%S')\<close> on one date-time value.\<close>

definition strftime :: "datetime \<Rightarrow> string" where
  "strftime d =
     pad4 (dt_year d) @ ''-'' @ pad2 (dt_month d) @ ''-'' @ pad2 (dt_day d) @ '' '' @
     pad2 (dt_hour d) @ '':'' @ pad2 (dt_minute d) @ '':'' @ pad2 (dt_second d)"

text \<open>
  What the library's date parser makes of a present cell: it raises, it reads the cell as
  the missing date-time \<open>NaT\<close> (the text \<open>NaT\<close>, for one), or it gives a date-time value.
\<close>

datatype parse_result = ParseError | NaT | Parsed datetime

text \<open>
  \<open>pd.to_datetime\<close> on one cell; the parser is the parameter \<open>parse\<close>. A missing cell does
  not reach the parser and does not raise: it becomes \<open>NaT\<close>.
\<close>

definition to_datetime_cell :: "(pyval \<Rightarrow> parse_result) \<Rightarrow> pyval \<Rightarrow> parse_result" where
  "to_datetime_cell parse v = (if isna v then NaT else parse v)"

text \<open>
  \<open>pd.to_datetime(df['Timestamp'])\<close> on the cells of the column: the call raises (\<open>None\<close>)
  when one cell does; in the list it returns \<open>None\<close> stands for \<open>NaT\<close>.
\<close>

fun to_datetime :: "(pyval \<Rightarrow> parse_result) \<Rightarrow> pyval list \<Rightarrow> datetime option list option" where
  "to_datetime parse [] = Some []"
| "to_datetime parse (v # vs) =
     (case to_datetime_cell parse v of
        ParseError \<Rightarrow> None
      | NaT \<Rightarrow> map_option (Cons None) (to_datetime parse vs)
      | Parsed d \<Rightarrow> map_option (Cons (Some d)) (to_datetime parse vs))"

text \<open>\<open>.dt.strftime(...)\<close> on the column: \<open>NaT\<close> is formatted as a missing cell.\<close>

definition dt_strftime :: "datetime option list \<Rightarrow> pyval list" where
  "dt_strftime ds = map (\<lambda>d. case d of None \<Rightarrow> NaN | Some t \<Rightarrow> Str (strftime t)) ds"

text \<open>\<open>df[c] = values\<close> for a column \<open>c\<close> that exists: one new cell per row.\<close>

definition assign_column :: "dataframe \<Rightarrow> string \<Rightarrow> pyval list \<Rightarrow> dataframe" where
  "assign_column df c vs = df\<lparr>rows := map2 (\<lambda>r v. r(c := v)) (rows df) vs\<rparr>"

text \<open>
  The \<open>try\<close> block that loads the CSV file. \<open>df['Timestamp']\<close> raises \<open>KeyError\<close> when
  the column is missing, and \<open>pd.to_datetime\<close> raises when a cell does not parse; both are
  caught by \<open>except Exception\<close>.
\<close>

definition load_csv :: "(pyval \<Rightarrow> parse_result) \<Rightarrow> read_csv_result \<Rightarrow> load_failure + dataframe" where
  "load_csv parse res =
     (case res of
        FileNotFoundError \<Rightarrow> Inl SourceNotFound
      | EmptyDataError \<Rightarrow> Inl SourceEmpty
      | OtherReadError \<Rightarrow> Inl SourceMalformed
      | Loaded df \<Rightarrow>
          if ''Timestamp'' \<notin> set (columns df) then Inl SourceMalformed
          else (case to_datetime parse (map (\<lambda>r. r ''Timestamp'') (rows df)) of
                  None \<Rightarrow> Inl SourceMalformed
                | Some ds \<Rightarrow> Inr (assign_column df ''Timestamp'' (dt_strftime ds))))"




section \<open>Database\<close>

text \<open>
  Modelled from the spec: the schema of the four tables, which is created outside the
  source file. \<open>ZoneID\<close> and \<open>MeasurementID\<close> are integer surrogate keys assigned by the
  table, \<open>ZoneName\<close> and \<open>MeasurementName\<close> are unique, and the fact tables carry no
  uniqueness constraint and accept NULL. A table is the list of its rows in row-id order,
  and a fact row holds the values as the driver bound them. The statements run against
  tables that exist.
\<close>

text \<open>A value as the database stores it.\<close>

datatype sqlval = SqlNull | SqlInteger int | SqlReal real | SqlText string

text \<open>A tuple of \<open>zone_reading_data\<close>, and the row stored for it.\<close>

type_synonym zone_reading = "pyval \<times> int \<times> int \<times> pyval"

type_synonym stored_reading = "sqlval \<times> int \<times> int \<times> sqlval"

record database =
  Zones :: "(int \<times> string) list"
  Measurements :: "(int \<times> string \<times> string) list"
  HourlyOutdoorReadings :: "sqlval list list"
  HourlyZoneReadings :: "stored_reading list"

text \<open>
  What the \<open>sqlite3\<close> module binds for a parameter of a statement: \<open>None\<close> as NULL, an
  integer as INTEGER, a floating-point number as REAL, with not-a-number bound as NULL, and
  a string as TEXT.
\<close>

definition sql_value :: "pyval \<Rightarrow> sqlval" where
  "sql_value v =
     (case v of
        PyInt i \<Rightarrow> SqlInteger i
      | Num x \<Rightarrow> SqlReal x
      | NaN \<Rightarrow> SqlNull
      | Str s \<Rightarrow> SqlText s
      | PyNone \<Rightarrow> SqlNull)"

text \<open>An integer outside the 64-bit range cannot be bound: the driver raises \<open>OverflowError\<close>.\<close>

definition bindable :: "pyval \<Rightarrow> bool" where
  "bindable v = (case v of PyInt i \<Rightarrow> - (2 ^ 63) \<le> i \<and> i < 2 ^ 63 | _ \<Rightarrow> True)"

text \<open>
  \<open>cursor.executemany(outdoor_insert_sql, outdoor_data)\<close>, then \<open>conn.commit()\<close>. When a
  parameter cannot be bound the call raises before the commit, and closing the connection
  drops the rows inserted so far.
\<close>

definition executemany_outdoor :: "pyval list list \<Rightarrow> py_error + sqlval list list" where
  "executemany_outdoor od =
     (if list_all (list_all bindable) od then Inr (map (map sql_value) od)
      else Inl OverflowError)"

text \<open>
  \<open>cursor.executemany(zone_readings_insert_sql, zone_reading_data)\<close>, then
  \<open>conn.commit()\<close>; the two keys of a tuple were read from the database.
\<close>

definition store_reading :: "zone_reading \<Rightarrow> stored_reading" where
  "store_reading t =
     (sql_value (fst t), fst (snd t), fst (snd (snd t)), sql_value (snd (snd (snd t))))"

definition executemany_zone :: "zone_reading list \<Rightarrow> py_error + stored_reading list" where
  "executemany_zone zd =
     (if list_all (\<lambda>t. bindable (fst t) \<and> bindable (snd (snd (snd t)))) zd
      then Inr (map store_reading zd)
      else Inl OverflowError)"

text \<open>
  Modelled from the spec: the surrogate key the table assigns to a new row, one more than
  the largest key in the table.
\<close>

definition next_rowid :: "int list \<Rightarrow> int" where
  "next_rowid ids = (if ids = [] then 1 else Max (set ids) + 1)"

text \<open>
  Modelled from the spec: the uniqueness of \<open>ZoneName\<close>, declared in the schema outside
  the source file. With it, \<open>INSERT OR IGNORE INTO Zones (ZoneName) VALUES (?)\<close> does
  nothing when a row of that name exists, and otherwise adds a row under the next row id.
\<close>

definition insert_or_ignore_zone :: "string \<Rightarrow> (int \<times> string) list \<Rightarrow> (int \<times> string) list" where
  "insert_or_ignore_zone zone_name tbl =
     (if zone_name \<in> set (map snd tbl) then tbl
      else tbl @ [(next_rowid (map fst tbl), zone_name)])"

text \<open>\<open>for zone_name in zone_names: cursor.execute(...)\<close>, then \<open>conn.commit()\<close>.\<close>

definition populate_zones :: "string list \<Rightarrow> database \<Rightarrow> database" where
  "populate_zones zns db = db\<lparr>Zones := fold insert_or_ignore_zone zns (Zones db)\<rparr>"

text \<open>The dictionary literal \<open>measurements_to_insert\<close>, in its order.\<close>

definition measurements_to_insert :: "(string \<times> string) list" where
  "measurements_to_insert =
     [(''temp'', ''C''),
      (''RH'', ''%''),
      (''CO2'', ''ppm''),
      (''valve_opening'', ''%''),
      (''window_opening'', ''%''),
      (''dew_point'', ''C''),
      (''temp_diff'', ''C''),
      (''RH_diff'', ''%''),
      (''Heat_Index'', ''C''),
      (''CO2_AQI'', ''AQI''),
      (''Condensation_Risk'', ''Risk Level''),
      (''Comfortable_Humidity'', ''Binary (0/1)''),
      (''Overheating_Risk'', ''Risk Level''),
      (''Cooling'', ''kW''),
      (''Heating'', ''kW''),
      (''Air_temperature'', ''C''),
      (''Relative_humidity'', ''%''),
      (''Wind_speed'', ''m/s''),
      (''Rain'', ''mm''),
      (''Solar_radiation'', ''W/m^2''),
      (''Lighting'', ''Lux''),
      (''outdoor_dew_point'', ''C''),
      (''Outdoor_Heat_Index'', ''C'')]"

text \<open>
  Modelled from the spec: the uniqueness of \<open>MeasurementName\<close>, declared in the schema
  outside the source file. With it,
  \<open>INSERT OR IGNORE INTO Measurements (MeasurementName, Unit) VALUES (?, ?)\<close> leaves a row
  of that name as it is, and otherwise adds a row under the next row id.
\<close>

definition insert_or_ignore_measurement ::
    "string \<times> string \<Rightarrow> (int \<times> string \<times> string) list \<Rightarrow> (int \<times> string \<times> string) list" where
  "insert_or_ignore_measurement nu tbl =
     (if fst nu \<in> set (map (\<lambda>r. fst (snd r)) tbl) then tbl
      else tbl @ [(next_rowid (map fst tbl), fst nu, snd nu)])"

definition populate_measurements :: "database \<Rightarrow> database" where
  "populate_measurements db =
     db\<lparr>Measurements := fold insert_or_ignore_measurement measurements_to_insert (Measurements db)\<rparr>"

text \<open>Reference resolution: the zone block, then the measurement block.\<close>

definition resolve_references :: "dataframe \<Rightarrow> database \<Rightarrow> database" where
  "resolve_references df db = populate_measurements (populate_zones (zone_names df) db)"

text \<open>
  The two dictionary comprehensions over \<open>SELECT ... FROM Zones\<close> and
  \<open>SELECT ... FROM Measurements\<close>. The statements have no \<open>ORDER BY\<close>, so the order in
  which the rows come back is the engine's choice: it is the parameter \<open>scan\<close>, which
  gives the rows of a table in the order of the scan. A Python dictionary keeps a key at the
  place of its first insertion and the value of its last; \<open>AList.update\<close> does the same
  on an association list.
\<close>

definition zone_id_map ::
    "((int \<times> string) list \<Rightarrow> (int \<times> string) list) \<Rightarrow> database \<Rightarrow> (string \<times> int) list" where
  "zone_id_map scan db = fold (\<lambda>r d. AList.update (snd r) (fst r) d) (scan (Zones db)) []"

definition measurement_id_map ::
    "((int \<times> string \<times> string) list \<Rightarrow> (int \<times> string \<times> string) list) \<Rightarrow> database \<Rightarrow>
     (string \<times> int) list" where
  "measurement_id_map scan db =
     fold (\<lambda>r d. AList.update (fst (snd r)) (fst r) d) (scan (Measurements db)) []"

section \<open>Fact transformer\<close>

text \<open>The list \<open>outdoor_cols\<close>.\<close>

definition outdoor_cols :: "string list" where
  "outdoor_cols =
     [''Timestamp'', ''Cooling'', ''Heating'', ''Air_temperature'', ''Relative_humidity'',
      ''Wind_speed'', ''Rain'', ''Solar_radiation'', ''Lighting'', ''outdoor_dew_point'',
      ''Outdoor_Heat_Index'']"

text \<open>The column list of \<open>outdoor_insert_sql\<close>, whose eleven placeholders follow it.\<close>

definition outdoor_insert_columns :: "string list" where
  "outdoor_insert_columns =
     [''Timestamp'', ''Cooling'', ''Heating'', ''Air_temperature'', ''Relative_humidity'',
      ''Wind_speed'', ''Rain'', ''Solar_radiation'', ''Lighting'', ''Outdoor_dew_point'',
      ''Outdoor_Heat_Index'']"

text \<open>SQL identifiers are compared without regard to the case of ASCII letters.\<close>

definition ascii_lower :: "char \<Rightarrow> char" where
  "ascii_lower c =
     (if CHR ''A'' \<le> c \<and> c \<le> CHR ''Z'' then char_of (of_char c + (32::nat)) else c)"

definition sql_name :: "string \<Rightarrow> string" where
  "sql_name s = map ascii_lower s"

text \<open>
  \<open>df_outdoor = df[outdoor_cols].copy()\<close> raises \<open>KeyError\<close> when a listed column is
  missing; \<open>outdoor_data = [tuple(row) for row in df_outdoor.values]\<close>.
\<close>

definition outdoor_data :: "dataframe \<Rightarrow> py_error + pyval list list" where
  "outdoor_data df =
     (case filter (\<lambda>c. c \<notin> set (columns df)) outdoor_cols of
        [] \<Rightarrow> Inr (map (\<lambda>r. map r outdoor_cols) (rows df))
      | c # cs \<Rightarrow> Inl (KeyError (c # cs)))"

text \<open>The list of names the zone loop skips.\<close>

definition global_measurements :: "string list" where
  "global_measurements =
     [''Cooling'', ''Heating'', ''Air_temperature'', ''Relative_humidity'',
      ''Wind_speed'', ''Rain'', ''Solar_radiation'', ''Lighting'',
      ''outdoor_dew_point'', ''Outdoor_Heat_Index'']"

text \<open>
  \<open>for measurement_name, measurement_id in measurement_id_map.items()\<close>, for one row and
  one zone; \<open>acc\<close> is \<open>zone_reading_data\<close>.
\<close>

fun measurement_loop ::
    "dataframe \<Rightarrow> row \<Rightarrow> pyval \<Rightarrow> string \<Rightarrow> int \<Rightarrow> (string \<times> int) list \<Rightarrow>
     zone_reading list \<Rightarrow> zone_reading list" where
  "measurement_loop df r timestamp zone_name zone_id [] acc = acc"
| "measurement_loop df r timestamp zone_name zone_id ((measurement_name, measurement_id) # ms) acc =
     (if measurement_name \<in> set global_measurements
      then measurement_loop df r timestamp zone_name zone_id ms acc
      else
        let csv_col_name = zone_name @ ''_'' @ measurement_name in
        if csv_col_name \<in> set (columns df) then
          let v = r csv_col_name;
              v = (if isna v then PyNone else v)
          in measurement_loop df r timestamp zone_name zone_id ms
               (acc @ [(timestamp, zone_id, measurement_id, v)])
        else measurement_loop df r timestamp zone_name zone_id ms acc)"

text \<open>The line printed for a zone that the lookup map does not hold.\<close>

definition zone_warning :: "string \<Rightarrow> string" where
  "zone_warning zone_name =
     ''Warning: Zone '' @ [CHR 0x27] @ zone_name @ [CHR 0x27] @
     '' not found in Zones table. Skipping data for this zone.''"

text \<open>
  \<open>for zone_name in zone_names\<close>, for one row; the state is \<open>zone_reading_data\<close> and the
  lines printed so far.
\<close>

fun zone_loop ::
    "dataframe \<Rightarrow> row \<Rightarrow> pyval \<Rightarrow> (string \<times> int) list \<Rightarrow> (string \<times> int) list \<Rightarrow> string list \<Rightarrow>
     zone_reading list \<times> string list \<Rightarrow> zone_reading list \<times> string list" where
  "zone_loop df r timestamp zmap mmap [] st = st"
| "zone_loop df r timestamp zmap mmap (zone_name # zs) (acc, out) =
     (case map_of zmap zone_name of
        None \<Rightarrow> zone_loop df r timestamp zmap mmap zs (acc, out @ [zone_warning zone_name])
      | Some zone_id \<Rightarrow>
          zone_loop df r timestamp zmap mmap zs
            (measurement_loop df r timestamp zone_name zone_id mmap acc, out))"

text \<open>
  \<open>for index, row in df.iterrows()\<close>; \<open>row['Timestamp']\<close> raises \<open>KeyError\<close> when the
  frame has no such column.
\<close>

fun row_loop ::
    "dataframe \<Rightarrow> string list \<Rightarrow> (string \<times> int) list \<Rightarrow> (string \<times> int) list \<Rightarrow> row list \<Rightarrow>
     zone_reading list \<times> string list \<Rightarrow> py_error + zone_reading list \<times> string list" where
  "row_loop df zns zmap mmap [] st = Inr st"
| "row_loop df zns zmap mmap (r # rs) st =
     (if ''Timestamp'' \<notin> set (columns df) then Inl (KeyError [''Timestamp''])
      else row_loop df zns zmap mmap rs (zone_loop df r (r ''Timestamp'') zmap mmap zns st))"

text \<open>The unpivoting block: the batch \<open>zone_reading_data\<close> and the lines printed.\<close>

definition unpivot ::
    "dataframe \<Rightarrow> string list \<Rightarrow> (string \<times> int) list \<Rightarrow> (string \<times> int) list \<Rightarrow>
     py_error + zone_reading list \<times> string list" where
  "unpivot df zns zmap mmap = row_loop df zns zmap mmap (rows df) ([], [])"

section \<open>The script\<close>

datatype run_status = LoadAborted load_failure | ProcessingError py_error | Completed

text \<open>
  What a run leaves: how it ended, whether \<open>get_db_connection\<close> was called, the committed
  database, and the warnings printed by the zone loop.
\<close>

record run =
  status :: run_status
  connected :: bool
  final_db :: database
  warnings :: "string list"

text \<open>
  The zone block of a run on a loaded frame: reference resolution, the two lookup maps
  read back from the database, and the unpivoting loop over them.
\<close>

definition zone_phase ::
    "((int \<times> string) list \<Rightarrow> (int \<times> string) list) \<Rightarrow>
     ((int \<times> string \<times> string) list \<Rightarrow> (int \<times> string \<times> string) list) \<Rightarrow>
     dataframe \<Rightarrow> database \<Rightarrow> py_error + zone_reading list \<times> string list" where
  "zone_phase zscan mscan df db =
     (let db2 = resolve_references df db
      in unpivot df (zone_names df) (zone_id_map zscan db2) (measurement_id_map mscan db2))"

text \<open>
  The script from the load block to the end. An exception in the second \<open>try\<close> block is
  caught and printed; what was committed before it stays.
\<close>

definition main ::
    "(pyval \<Rightarrow> parse_result) \<Rightarrow>
     ((int \<times> string) list \<Rightarrow> (int \<times> string) list) \<Rightarrow>
     ((int \<times> string \<times> string) list \<Rightarrow> (int \<times> string \<times> string) list) \<Rightarrow>
     read_csv_result \<Rightarrow> database \<Rightarrow> run" where
  "main parse zscan mscan src db =
     (case load_csv parse src of
        Inl e \<Rightarrow> \<lparr>status = LoadAborted e, connected = False, final_db = db, warnings = []\<rparr>
      | Inr df \<Rightarrow>
          let db2 = resolve_references df db in
          (case outdoor_data df of
             Inl e \<Rightarrow> \<lparr>status = ProcessingError e, connected = True, final_db = db2, warnings = []\<rparr>
           | Inr od \<Rightarrow>
               (case executemany_outdoor od of
                  Inl e \<Rightarrow>
                    \<lparr>status = ProcessingError e, connected = True, final_db = db2, warnings = []\<rparr>
                | Inr stored \<Rightarrow>
                    let db3 = db2\<lparr>HourlyOutdoorReadings := HourlyOutdoorReadings db2 @ stored\<rparr> in
                    (case zone_phase zscan mscan df db of
                       Inl e \<Rightarrow>
                         \<lparr>status = ProcessingError e, connected = True, final_db = db3, warnings = []\<rparr>
                     | Inr (zd, out) \<Rightarrow>
                         (case executemany_zone zd of
                            Inl e \<Rightarrow>
                              \<lparr>status = ProcessingError e, connected = True, final_db = db3,
                               warnings = out\<rparr>
                          | Inr zstored \<Rightarrow>
                              \<lparr>status = Completed, connected = True,
                               final_db = db3\<lparr>HourlyZoneReadings := HourlyZoneReadings db3 @ zstored\<rparr>,
                               warnings = out\<rparr>)))))"

section \<open>The unpivot as the specification words it\<close>

text \<open>
  What the specification asks of one source row, one zone and one entry of the measurement
  map: nothing for an unresolved zone, nothing for a global measurement, nothing when the
  column \<open><zone>_<measurement>\<close> is absent, and otherwise the one tuple of timestamp, zone
  key, measurement key and value, with not-a-number turned into the null value.
\<close>

definition reading_spec ::
    "dataframe \<Rightarrow> (string \<times> int) list \<Rightarrow> row \<Rightarrow> string \<Rightarrow> string \<times> int \<Rightarrow> zone_reading list" where
  "reading_spec df zmap r z m =
     (case map_of zmap z of
        None \<Rightarrow> []
      | Some zid \<Rightarrow>
          if fst m \<in> set global_measurements then []
          else if z @ ''_'' @ fst m \<in> set (columns df)
          then [(r ''Timestamp'', zid, snd m,
                 if r (z @ ''_'' @ fst m) = NaN then PyNone else r (z @ ''_'' @ fst m))]
          else [])"

text \<open>The whole batch: rows outermost, then zones, then measurements.\<close>

definition unpivot_spec ::
    "dataframe \<Rightarrow> string list \<Rightarrow> (string \<times> int) list \<Rightarrow> (string \<times> int) list \<Rightarrow> zone_reading list" where
  "unpivot_spec df zns zmap mmap =
     concat (map (\<lambda>r. concat (map (\<lambda>z. concat (map (reading_spec df zmap r z) mmap)) zns)) (rows df))"

text \<open>The diagnostics of one row: one line for each zone the lookup map does not hold.\<close>

definition warnings_spec :: "(string \<times> int) list \<Rightarrow> string list \<Rightarrow> string list" where
  "warnings_spec zmap zns = map zone_warning (filter (\<lambda>z. map_of zmap z = None) zns)"

section \<open>Example inputs\<close>

definition example_columns :: "string list" where
  "example_columns =
     [''Timestamp'', ''Cooling'', ''Heating'', ''Air_temperature'', ''Relative_humidity'',
      ''Wind_speed'', ''Rain'', ''Solar_radiation'', ''Lighting'', ''outdoor_dew_point'',
      ''Outdoor_Heat_Index'', ''Z1_temp'', ''Z1_CO2'', ''Z1_foo'', ''Z9_RH'']"

text \<open>A row as the CSV reader delivers it: the cells not listed are missing.\<close>

definition example_raw_row :: row where
  "example_raw_row c =
     (case map_of [(''Timestamp'', Str ''1/1/2024 0:00''), (''Air_temperature'', Num 5),
                   (''Z1_temp'', Num 21.5), (''Z1_foo'', Num 3), (''Z9_RH'', Num 40)] c of
        Some v \<Rightarrow> v
      | None \<Rightarrow> NaN)"


text \<open>
  A date parser that knows the one timestamp of the example and the text \<open>NaT\<close>.
\<close>

definition example_parse :: "pyval \<Rightarrow> parse_result" where
  "example_parse v =
     (if v = Str ''1/1/2024 0:00''
      then Parsed \<lparr>dt_year = 2024, dt_month = 1, dt_day = 1, dt_hour = 0, dt_minute = 0, dt_second = 0\<rparr>
      else if v = Str ''NaT'' then NaT
      else ParseError)"

text \<open>Two scans: a table in row-id order, and the measurements in the order of their names.\<close>

definition scan_by_rowid :: "'a list \<Rightarrow> 'a list" where
  "scan_by_rowid tbl = tbl"

definition scan_by_name :: "(int \<times> string \<times> string) list \<Rightarrow> (int \<times> string \<times> string) list" where
  "scan_by_name tbl = sort_key (\<lambda>r. fst (snd r)) tbl"

text \<open>The same row and frame after the load block.\<close>

definition example_row :: row where
  "example_row = example_raw_row(''Timestamp'' := Str ''2024-01-01 00:00:00'')"

definition example_frame :: dataframe where
  "example_frame = \<lparr>columns = example_columns, rows = [example_row]\<rparr>"



text \<open>A file that has its header line and no data line.\<close>

definition header_only_frame :: dataframe where
  "header_only_frame = \<lparr>columns = example_columns, rows = []\<rparr>"

definition empty_db :: database where
  "empty_db = \<lparr>Zones = [], Measurements = [], HourlyOutdoorReadings = [], HourlyZoneReadings = []\<rparr>"

text \<open>A database that already holds a zone and a measurement the script does not know.\<close>

definition example_db :: database where
  "example_db =
     \<lparr>Zones = [(7, ''Z9'')], Measurements = [(40, ''foo'', ''u'')],
      HourlyOutdoorReadings = [], HourlyZoneReadings = []\<rparr>"

section \<open>Zone-set derivation\<close>

lemma set_zone_names:
  "set (zone_names df) =
     split_first ` {col \<in> set (columns df). sublist ''_temp'' col \<and> col \<noteq> ''Air_temperature''}"
  by (simp add: zone_names_def zone_columns_def)

lemma sorted_zone_names: "sorted (zone_names df)"
  by (simp add: zone_names_def)

lemma distinct_zone_names: "distinct (zone_names df)"
  by (simp add: zone_names_def)

text \<open>
  C5. The zone list holds exactly the texts before the first underscore of the columns
  whose name contains \<open>_temp\<close> and is not \<open>Air_temperature\<close>; it is sorted
  lexicographically without repetition; and two frames whose column indexes are
  permutations of one another give the same zone list.
\<close>

theorem zone_names_derivation:
  "set (zone_names df) =
     {takeWhile (\<lambda>c. c \<noteq> CHR ''_'') col | col.
        col \<in> set (columns df) \<and> (\<exists>ps ss. col = ps @ ''_temp'' @ ss) \<and> col \<noteq> ''Air_temperature''}
   \<and> sorted (zone_names df) \<and> distinct (zone_names df)
   \<and> (mset (columns df') = mset (columns df) \<longrightarrow> zone_names df' = zone_names df)"
proof -
  have a: "set (zone_names df) =
     {takeWhile (\<lambda>c. c \<noteq> CHR ''_'') col | col.
        col \<in> set (columns df) \<and> (\<exists>ps ss. col = ps @ ''_temp'' @ ss) \<and> col \<noteq> ''Air_temperature''}"
    unfolding set_zone_names split_first_def sublist_def by blast
  have b: "zone_names df' = zone_names df" if "mset (columns df') = mset (columns df)"
  proof -
    from that have "set (columns df') = set (columns df)"
      by (rule mset_eq_setD)
    then show ?thesis
      by (simp add: zone_names_def zone_columns_def)
  qed
  from a b sorted_zone_names distinct_zone_names show ?thesis
    by blast
qed

theorem zone_names_derivation_witness:
  "zone_names \<lparr>columns = [''Z2_temp'', ''Timestamp'', ''Air_temperature'', ''Z1_temp_diff'', ''Z1_temp'', ''Z2_RH''], rows = []\<rparr>
     = [''Z1'', ''Z2'']
   \<and> zone_names \<lparr>columns = [''Z1_temp'', ''Z2_RH'', ''Z1_temp_diff'', ''Air_temperature'', ''Timestamp'', ''Z2_temp''], rows = []\<rparr>
     = [''Z1'', ''Z2'']"
proof -
  let ?a = "\<lparr>columns = [''Z2_temp'', ''Timestamp'', ''Air_temperature'', ''Z1_temp_diff'', ''Z1_temp'', ''Z2_RH''], rows = []\<rparr> :: dataframe"
  let ?b = "\<lparr>columns = [''Z1_temp'', ''Z2_RH'', ''Z1_temp_diff'', ''Air_temperature'', ''Timestamp'', ''Z2_temp''], rows = []\<rparr> :: dataframe"
  have p: "mset (columns ?b) = mset (columns ?a)"
    by simp
  have e: "zone_names ?a = [''Z1'', ''Z2'']"
    by code_simp
  from zone_names_derivation [of ?a ?b] p have "zone_names ?b = zone_names ?a"
    by blast
  with e show ?thesis
    by simp
qed

section \<open>Reference upsert\<close>

lemma insert_or_ignore_zone_present:
  "z \<in> set (map snd tbl) \<Longrightarrow> insert_or_ignore_zone z tbl = tbl"
  by (simp add: insert_or_ignore_zone_def)

lemma names_insert_or_ignore_zone:
  "snd ` set (insert_or_ignore_zone z tbl) = insert z (snd ` set tbl)"
  by (auto simp: insert_or_ignore_zone_def)

lemma names_fold_zone:
  "snd ` set (fold insert_or_ignore_zone zs tbl) = set zs \<union> snd ` set tbl"
  by (induction zs arbitrary: tbl) (auto simp: names_insert_or_ignore_zone)

lemma fold_zone_noop:
  "set zs \<subseteq> set (map snd tbl) \<Longrightarrow> fold insert_or_ignore_zone zs tbl = tbl"
  by (induction zs) (simp_all add: insert_or_ignore_zone_present)

lemma prefix_fold_zone: "prefix tbl (fold insert_or_ignore_zone zs tbl)"
proof (induction zs arbitrary: tbl)
  case Nil
  show ?case by simp
next
  case (Cons z zs)
  have "prefix tbl (insert_or_ignore_zone z tbl)"
    by (simp add: insert_or_ignore_zone_def)
  with Cons.IH [of "insert_or_ignore_zone z tbl"] show ?case
    by (auto intro: prefix_order.trans)
qed

lemma distinct_fold_zone:
  "distinct (map snd tbl) \<Longrightarrow> distinct (map snd (fold insert_or_ignore_zone zs tbl))"
proof (induction zs arbitrary: tbl)
  case Nil
  then show ?case by simp
next
  case (Cons z zs)
  from Cons.prems have "distinct (map snd (insert_or_ignore_zone z tbl))"
    by (simp add: insert_or_ignore_zone_def)
  then show ?case
    by (simp add: Cons.IH)
qed

lemma insert_or_ignore_measurement_present:
  "fst nu \<in> set (map (\<lambda>r. fst (snd r)) tbl) \<Longrightarrow> insert_or_ignore_measurement nu tbl = tbl"
  by (simp add: insert_or_ignore_measurement_def)

lemma names_insert_or_ignore_measurement:
  "(\<lambda>r. fst (snd r)) ` set (insert_or_ignore_measurement nu tbl) =
     insert (fst nu) ((\<lambda>r. fst (snd r)) ` set tbl)"
  by (auto simp: insert_or_ignore_measurement_def)

lemma names_fold_measurement:
  "(\<lambda>r. fst (snd r)) ` set (fold insert_or_ignore_measurement ms tbl) =
     fst ` set ms \<union> (\<lambda>r. fst (snd r)) ` set tbl"
  by (induction ms arbitrary: tbl) (auto simp: names_insert_or_ignore_measurement)

lemma fold_measurement_noop:
  "set (map fst ms) \<subseteq> set (map (\<lambda>r. fst (snd r)) tbl) \<Longrightarrow>
   fold insert_or_ignore_measurement ms tbl = tbl"
  by (induction ms) (simp_all add: insert_or_ignore_measurement_present)

lemma prefix_fold_measurement: "prefix tbl (fold insert_or_ignore_measurement ms tbl)"
proof (induction ms arbitrary: tbl)
  case Nil
  show ?case by simp
next
  case (Cons m ms)
  have "prefix tbl (insert_or_ignore_measurement m tbl)"
    by (simp add: insert_or_ignore_measurement_def)
  with Cons.IH [of "insert_or_ignore_measurement m tbl"] show ?case
    by (auto intro: prefix_order.trans)
qed

lemma distinct_fold_measurement:
  "distinct (map (\<lambda>r. fst (snd r)) tbl) \<Longrightarrow>
   distinct (map (\<lambda>r. fst (snd r)) (fold insert_or_ignore_measurement ms tbl))"
proof (induction ms arbitrary: tbl)
  case Nil
  then show ?case by simp
next
  case (Cons m ms)
  from Cons.prems have "distinct (map (\<lambda>r. fst (snd r)) (insert_or_ignore_measurement m tbl))"
    by (simp add: insert_or_ignore_measurement_def)
  then show ?case
    by (simp add: Cons.IH)
qed

lemma Zones_resolve_references:
  "Zones (resolve_references df db) = fold insert_or_ignore_zone (zone_names df) (Zones db)"
  by (simp add: resolve_references_def populate_zones_def populate_measurements_def)

lemma Measurements_resolve_references:
  "Measurements (resolve_references df db) =
     fold insert_or_ignore_measurement measurements_to_insert (Measurements db)"
  by (simp add: resolve_references_def populate_zones_def populate_measurements_def)

lemma facts_resolve_references:
  "HourlyOutdoorReadings (resolve_references df db) = HourlyOutdoorReadings db"
  "HourlyZoneReadings (resolve_references df db) = HourlyZoneReadings db"
  by (simp_all add: resolve_references_def populate_zones_def populate_measurements_def)

lemma resolve_references_twice:
  "resolve_references df (resolve_references df db) = resolve_references df db"
proof -
  let ?db = "resolve_references df db"
  have z: "fold insert_or_ignore_zone (zone_names df) (Zones ?db) = Zones ?db"
    by (rule fold_zone_noop) (simp add: Zones_resolve_references names_fold_zone)
  have m: "fold insert_or_ignore_measurement measurements_to_insert (Measurements ?db) = Measurements ?db"
    by (rule fold_measurement_noop) (simp add: Measurements_resolve_references names_fold_measurement)
  have "resolve_references df ?db =
          ?db\<lparr>Zones := fold insert_or_ignore_zone (zone_names df) (Zones ?db),
              Measurements := fold insert_or_ignore_measurement measurements_to_insert (Measurements ?db)\<rparr>"
    by (simp add: resolve_references_def populate_zones_def populate_measurements_def)
  with z m show ?thesis
    by simp
qed

text \<open>
  C4. Running reference resolution a second time changes nothing; the rows a table held
  before the run are kept as they were, at the head of the table (no row is updated, a name
  already present is skipped without failing: the functions are total); and a table without
  repeated names stays without repeated names.
\<close>

theorem reference_upsert_idempotent:
  "resolve_references df (resolve_references df db) = resolve_references df db
   \<and> prefix (Zones db) (Zones (resolve_references df db))
   \<and> prefix (Measurements db) (Measurements (resolve_references df db))
   \<and> (distinct (map snd (Zones db)) \<longrightarrow> distinct (map snd (Zones (resolve_references df db))))
   \<and> (distinct (map (\<lambda>r. fst (snd r)) (Measurements db)) \<longrightarrow>
        distinct (map (\<lambda>r. fst (snd r)) (Measurements (resolve_references df db))))"
  by (simp add: resolve_references_twice Zones_resolve_references Measurements_resolve_references
      prefix_fold_zone prefix_fold_measurement distinct_fold_zone distinct_fold_measurement)

theorem reference_upsert_idempotent_witness:
  "distinct (map snd (Zones example_db))
   \<and> distinct (map (\<lambda>r. fst (snd r)) (Measurements example_db))
   \<and> Zones (resolve_references example_frame (resolve_references example_frame example_db))
       = [(7, ''Z9''), (8, ''Z1'')]
   \<and> distinct (map snd (Zones (resolve_references example_frame example_db)))
   \<and> distinct (map (\<lambda>r. fst (snd r)) (Measurements (resolve_references example_frame example_db)))"
proof -
  have d: "distinct (map snd (Zones example_db))"
    "distinct (map (\<lambda>r. fst (snd r)) (Measurements example_db))"
    by (simp_all add: example_db_def)
  have e: "Zones (resolve_references example_frame example_db) = [(7, ''Z9''), (8, ''Z1'')]"
    by code_simp
  from reference_upsert_idempotent [of example_frame example_db] d e show ?thesis
    by simp
qed

section \<open>Zone unpivot\<close>

lemma measurement_loop_eq:
  "map_of zmap z = Some zid \<Longrightarrow>
   measurement_loop df r (r ''Timestamp'') z zid ms acc =
     acc @ concat (map (reading_spec df zmap r z) ms)"
proof (induction ms arbitrary: acc)
  case Nil
  then show ?case by simp
next
  case (Cons m ms)
  obtain n i where m: "m = (n, i)" by (cases m)
  show ?case
    using Cons.prems by (simp add: m Cons.IH reading_spec_def isna_def Let_def)
qed

lemma reading_spec_unresolved:
  "map_of zmap z = None \<Longrightarrow> concat (map (reading_spec df zmap r z) ms) = []"
  by (induction ms) (simp_all add: reading_spec_def)

lemma zone_loop_eq:
  "zone_loop df r (r ''Timestamp'') zmap mmap zs (acc, out) =
     (acc @ concat (map (\<lambda>z. concat (map (reading_spec df zmap r z) mmap)) zs),
      out @ warnings_spec zmap zs)"
proof (induction zs arbitrary: acc out)
  case Nil
  then show ?case by (simp add: warnings_spec_def)
next
  case (Cons z zs)
  show ?case
  proof (cases "map_of zmap z")
    case None
    then show ?thesis
      by (simp add: Cons.IH reading_spec_unresolved warnings_spec_def)
  next
    case (Some zid)
    then show ?thesis
      by (simp add: Cons.IH measurement_loop_eq warnings_spec_def)
  qed
qed

lemma row_loop_eq:
  "''Timestamp'' \<in> set (columns df) \<Longrightarrow>
   row_loop df zns zmap mmap rs (acc, out) =
     Inr (acc @ concat (map (\<lambda>r. concat (map (\<lambda>z. concat (map (reading_spec df zmap r z) mmap)) zns)) rs),
          out @ concat (map (\<lambda>r. warnings_spec zmap zns) rs))"
  by (induction rs arbitrary: acc out) (simp_all add: zone_loop_eq)

lemma unpivot_eq:
  "''Timestamp'' \<in> set (columns df) \<Longrightarrow>
   unpivot df zns zmap mmap =
     Inr (unpivot_spec df zns zmap mmap, concat (map (\<lambda>r. warnings_spec zmap zns) (rows df)))"
  by (simp add: unpivot_def unpivot_spec_def row_loop_eq)

text \<open>Without a \<open>Timestamp\<close> column the loop ends well only on a frame without rows.\<close>

lemma unpivot_no_timestamp:
  "''Timestamp'' \<notin> set (columns df) \<Longrightarrow> unpivot df zns zmap mmap = Inr (batch, out) \<Longrightarrow>
   batch = [] \<and> out = []"
  by (cases "rows df") (simp_all add: unpivot_def)

lemma in_unpivot_spec:
  "t \<in> set (unpivot_spec df zns zmap mmap) \<longleftrightarrow>
     (\<exists>r \<in> set (rows df). \<exists>z \<in> set zns. \<exists>m \<in> set mmap. t \<in> set (reading_spec df zmap r z m))"
  by (auto simp: unpivot_spec_def)

lemma in_reading_spec:
  "t \<in> set (reading_spec df zmap r z m) \<longleftrightarrow>
     (\<exists>zid. map_of zmap z = Some zid \<and> fst m \<notin> set global_measurements \<and>
        z @ ''_'' @ fst m \<in> set (columns df) \<and>
        t = (r ''Timestamp'', zid, snd m,
             if r (z @ ''_'' @ fst m) = NaN then PyNone else r (z @ ''_'' @ fst m)))"
  by (auto simp: reading_spec_def split: option.splits)

text \<open>
  C1. On a frame with its \<open>Timestamp\<close> column the loop raises nothing and its batch is, in
  loop order, what every source row, zone and measurement-map entry contributes. For a zone
  the lookup map resolves and a measurement that is not a global one, that contribution is
  exactly one tuple (the row's timestamp, the zone key, the measurement key, the cell of
  column \<open><zone>_<measurement>\<close> with not-a-number as the null value) when the column
  exists, and no tuple when it does not.
\<close>

theorem zone_unpivot_sparse:
  assumes "''Timestamp'' \<in> set (columns df)"
  shows "(\<exists>out. unpivot df zns zmap mmap = Inr (unpivot_spec df zns zmap mmap, out))
    \<and> (\<forall>r z zid m mid. map_of zmap z = Some zid \<and> m \<notin> set global_measurements \<longrightarrow>
          reading_spec df zmap r z (m, mid) =
            (if z @ ''_'' @ m \<in> set (columns df)
             then [(r ''Timestamp'', zid, mid,
                    if r (z @ ''_'' @ m) = NaN then PyNone else r (z @ ''_'' @ m))]
             else []))"
  using assms by (simp add: unpivot_eq reading_spec_def)

theorem zone_unpivot_sparse_witness:
  "''Timestamp'' \<in> set (columns example_frame)
   \<and> (\<exists>out. unpivot example_frame [''Z1''] [(''Z1'', 8)] [(''temp'', 41), (''RH'', 42), (''CO2'', 43), (''Cooling'', 54)]
        = Inr ([(Str ''2024-01-01 00:00:00'', 8, 41, Num 21.5),
                (Str ''2024-01-01 00:00:00'', 8, 43, PyNone)], out))"
proof -
  have c: "''Timestamp'' \<in> set (columns example_frame)"
    by (simp add: example_frame_def example_columns_def)
  have e: "unpivot_spec example_frame [''Z1''] [(''Z1'', 8)] [(''temp'', 41), (''RH'', 42), (''CO2'', 43), (''Cooling'', 54)]
        = [(Str ''2024-01-01 00:00:00'', 8, 41, Num 21.5),
           (Str ''2024-01-01 00:00:00'', 8, 43, PyNone)]"
    by code_simp
  from zone_unpivot_sparse [OF c, of "[''Z1'']" "[(''Z1'', 8)]" "[(''temp'', 41), (''RH'', 42), (''CO2'', 43), (''Cooling'', 54)]"]
  have "\<exists>out. unpivot example_frame [''Z1''] [(''Z1'', 8)] [(''temp'', 41), (''RH'', 42), (''CO2'', 43), (''Cooling'', 54)]
        = Inr (unpivot_spec example_frame [''Z1''] [(''Z1'', 8)] [(''temp'', 41), (''RH'', 42), (''CO2'', 43), (''Cooling'', 54)], out)"
    by blast
  with c e show ?thesis
    by simp
qed

lemma unpivot_batch_spec:
  assumes "unpivot df zns zmap mmap = Inr (batch, out)" and "t \<in> set batch"
  shows "t \<in> set (unpivot_spec df zns zmap mmap)"
proof (cases "''Timestamp'' \<in> set (columns df)")
  case True
  with assms show ?thesis
    by (simp add: unpivot_eq)
next
  case False
  with assms unpivot_no_timestamp [of df zns zmap mmap batch out] show ?thesis
    by simp
qed




lemma concat_map_removeAll:
  "f z = [] \<Longrightarrow> concat (map f (removeAll z zs)) = concat (map f zs)"
  by (induction zs) auto

lemma unpivot_spec_removeAll:
  "map_of zmap z = None \<Longrightarrow>
   unpivot_spec df (removeAll z zns) zmap mmap = unpivot_spec df zns zmap mmap"
  by (simp add: unpivot_spec_def concat_map_removeAll reading_spec_unresolved)

text \<open>
  C8. When a zone of the zone list is absent from the zone lookup map, the loop still
  raises nothing; it prints the warning for that zone (once for each source row); its batch
  is the batch it produces without that zone; and every tuple of the batch carries a zone
  key that the lookup map gives to a zone of the list.
\<close>

theorem unresolved_zone_guard:
  assumes "''Timestamp'' \<in> set (columns df)" and "z \<in> set zns" and "map_of zmap z = None"
  shows "\<exists>batch out out'.
     unpivot df zns zmap mmap = Inr (batch, out)
     \<and> (rows df \<noteq> [] \<longrightarrow> zone_warning z \<in> set out)
     \<and> length (filter (\<lambda>l. l = zone_warning z) out) \<ge> length (rows df)
     \<and> unpivot df (removeAll z zns) zmap mmap = Inr (batch, out')
     \<and> (\<forall>t \<in> set batch. \<exists>z' \<in> set zns. map_of zmap z' = Some (fst (snd t)))"
proof -
  let ?w = "warnings_spec zmap zns"
  let ?out = "concat (map (\<lambda>r. ?w) (rows df))"
  have w: "zone_warning z \<in> set ?w"
    using assms(2,3) by (simp add: warnings_spec_def)
  have a: "rows df \<noteq> [] \<longrightarrow> zone_warning z \<in> set ?out"
    using w by (cases "rows df") simp_all
  have "1 \<le> length (filter (\<lambda>l. l = zone_warning z) ?w)"
    using w by (simp add: Suc_le_eq filter_empty_conv)
  then have c: "length rs \<le> length (filter (\<lambda>l. l = zone_warning z) (concat (map (\<lambda>r. ?w) rs)))" for rs :: "row list"
    by (induction rs) simp_all
  have b: "\<forall>t \<in> set (unpivot_spec df zns zmap mmap). \<exists>z' \<in> set zns. map_of zmap z' = Some (fst (snd t))"
    by (auto simp: in_unpivot_spec in_reading_spec)
  from assms(1,3) a b c [of "rows df"] show ?thesis
    by (simp add: unpivot_eq unpivot_spec_removeAll)
qed

theorem unresolved_zone_guard_witness:
  "''Timestamp'' \<in> set (columns example_frame) \<and> map_of [(''Z1'', 8::int)] ''Z9'' = None
   \<and> unpivot example_frame [''Z1'', ''Z9''] [(''Z1'', 8)] [(''temp'', 41), (''RH'', 42)]
       = Inr ([(Str ''2024-01-01 00:00:00'', 8, 41, Num 21.5)], [zone_warning ''Z9''])
   \<and> (\<exists>out'. unpivot example_frame (removeAll ''Z9'' [''Z1'', ''Z9'']) [(''Z1'', 8)] [(''temp'', 41), (''RH'', 42)]
       = Inr ([(Str ''2024-01-01 00:00:00'', 8, 41, Num 21.5)], out'))"
proof -
  have c: "''Timestamp'' \<in> set (columns example_frame)"
    by (simp add: example_frame_def example_columns_def)
  have z: "''Z9'' \<in> set [''Z1'', ''Z9'']"
    by simp
  have n: "map_of [(''Z1'', 8::int)] ''Z9'' = None"
    by simp
  have e: "unpivot example_frame [''Z1'', ''Z9''] [(''Z1'', 8)] [(''temp'', 41), (''RH'', 42)]
       = Inr ([(Str ''2024-01-01 00:00:00'', 8, 41, Num 21.5)], [zone_warning ''Z9''])"
    by code_simp
  from unresolved_zone_guard [OF c z n, of "[(''temp'', 41), (''RH'', 42)]"] c n e show ?thesis
    by auto
qed

section \<open>The load block\<close>



lemma to_datetime_Some:
  "to_datetime parse vs = Some ds \<Longrightarrow>
   list_all2 (\<lambda>v d. to_datetime_cell parse v = (case d of None \<Rightarrow> NaT | Some t \<Rightarrow> Parsed t)) vs ds"
proof (induction vs arbitrary: ds)
  case Nil
  then show ?case by simp
next
  case (Cons v vs)
  then show ?case
    by (auto split: parse_result.splits)
qed

lemma to_datetime_None:
  "to_datetime parse vs = None \<longleftrightarrow> (\<exists>v \<in> set vs. to_datetime_cell parse v = ParseError)"
  by (induction vs) (auto split: parse_result.splits)

lemma load_csv_Inr:
  assumes "load_csv parse src = Inr df"
  obtains raw ds where "src = Loaded raw" and "''Timestamp'' \<in> set (columns raw)"
    and "to_datetime parse (map (\<lambda>r. r ''Timestamp'') (rows raw)) = Some ds"
    and "df = assign_column raw ''Timestamp'' (dt_strftime ds)"
  using assms
  by (cases src) (auto simp: load_csv_def split: if_splits option.splits)



lemma rows_assign_column:
  "length vs = length (rows df) \<Longrightarrow>
   length (rows (assign_column df c vs)) = length (rows df) \<and>
   (\<forall>i < length (rows df). rows (assign_column df c vs) ! i = (rows df ! i)(c := vs ! i))"
  by (simp add: assign_column_def)

lemma load_csv_rows:
  assumes "load_csv parse (Loaded raw) = Inr df"
  shows "length (rows df) = length (rows raw)"
    and "i < length (rows raw) \<Longrightarrow>
         (case to_datetime_cell parse ((rows raw ! i) ''Timestamp'') of
            Parsed d \<Rightarrow> (rows df ! i) ''Timestamp'' = Str (strftime d)
          | NaT \<Rightarrow> (rows df ! i) ''Timestamp'' = NaN
          | ParseError \<Rightarrow> False)"
    and "i < length (rows raw) \<Longrightarrow> c \<noteq> ''Timestamp'' \<Longrightarrow> (rows df ! i) c = (rows raw ! i) c"
proof -
  from assms obtain ds
    where ds: "to_datetime parse (map (\<lambda>r. r ''Timestamp'') (rows raw)) = Some ds"
      and df: "df = assign_column raw ''Timestamp'' (dt_strftime ds)"
    by (auto elim: load_csv_Inr)
  from ds have l2: "list_all2 (\<lambda>v d. to_datetime_cell parse v = (case d of None \<Rightarrow> NaT | Some t \<Rightarrow> Parsed t))
      (map (\<lambda>r. r ''Timestamp'') (rows raw)) ds"
    by (rule to_datetime_Some)
  then have len: "length ds = length (rows raw)"
    by (auto dest: list_all2_lengthD)
  then have len': "length (dt_strftime ds) = length (rows raw)"
    by (simp add: dt_strftime_def)
  note r = rows_assign_column [OF len', of "''Timestamp''"]
  from r df show "length (rows df) = length (rows raw)"
    by simp
  {
    fix i assume i: "i < length (rows raw)"
    from l2 i len have n: "to_datetime_cell parse ((rows raw ! i) ''Timestamp'') =
        (case ds ! i of None \<Rightarrow> NaT | Some t \<Rightarrow> Parsed t)"
      by (auto simp: list_all2_conv_all_nth)
    from r df i have c: "rows df ! i = (rows raw ! i)(''Timestamp'' := dt_strftime ds ! i)"
      by simp
    from i len have s: "dt_strftime ds ! i = (case ds ! i of None \<Rightarrow> NaN | Some t \<Rightarrow> Str (strftime t))"
      by (simp add: dt_strftime_def)
    from c s n show "(case to_datetime_cell parse ((rows raw ! i) ''Timestamp'') of
            Parsed d \<Rightarrow> (rows df ! i) ''Timestamp'' = Str (strftime d)
          | NaT \<Rightarrow> (rows df ! i) ''Timestamp'' = NaN
          | ParseError \<Rightarrow> False)"
      by (cases "ds ! i") simp_all
    from c show "c \<noteq> ''Timestamp'' \<Longrightarrow> (rows df ! i) c = (rows raw ! i) c"
      by simp
  }
qed

section \<open>What a run commits\<close>



text \<open>
  The outdoor table after a run on a loaded frame: the bound batch is appended when every
  cell of it can be bound, and nothing otherwise.
\<close>

lemma outdoor_table_after_main:
  assumes "load_csv parse src = Inr df" and "outdoor_data df = Inr od"
  shows "HourlyOutdoorReadings (final_db (main parse zscan mscan src db)) =
           HourlyOutdoorReadings db @
             (if list_all (list_all bindable) od then map (map sql_value) od else [])"
proof (cases "list_all (list_all bindable) od")
  case True
  then have e: "executemany_outdoor od = Inr (map (map sql_value) od)"
    by (simp add: executemany_outdoor_def)
  show ?thesis
  proof (cases "zone_phase zscan mscan df db")
    case (Inl err)
    with assms e True show ?thesis
      by (simp add: main_def Let_def facts_resolve_references)
  next
    case (Inr p)
    obtain zd out where p: "p = (zd, out)"
      by (cases p)
    show ?thesis
      using assms e True Inr p
      by (cases "executemany_zone zd") (simp_all add: main_def Let_def facts_resolve_references)
  qed
next
  case False
  then have "executemany_outdoor od = Inl OverflowError"
    by (simp add: executemany_outdoor_def)
  with assms False show ?thesis
    by (simp add: main_def Let_def facts_resolve_references)
qed




section \<open>Outdoor extraction\<close>

lemma outdoor_data_present:
  "set outdoor_cols \<subseteq> set (columns df) \<Longrightarrow>
   outdoor_data df = Inr (map (\<lambda>r. map r outdoor_cols) (rows df))"
proof -
  assume "set outdoor_cols \<subseteq> set (columns df)"
  then have "filter (\<lambda>c. c \<notin> set (columns df)) outdoor_cols = []"
    by (auto simp: filter_empty_conv)
  then show ?thesis
    by (simp add: outdoor_data_def)
qed


text \<open>
  C2. On a frame that has the eleven columns of \<open>outdoor_cols\<close>, the outdoor batch has one
  tuple for each source row, in row order; the tuple holds the row's cells of \<open>Timestamp\<close>
  and of the ten global columns, unchanged, in the order of the column list of the insert
  statement (whose names are those of \<open>outdoor_cols\<close> up to the case of letters); a run
  hands exactly this batch to the insert, which appends it as the driver binds it when
  every cell can be bound and appends nothing otherwise; and the load block leaves the
  cells of the ten global columns as the reader delivered them.
\<close>

theorem outdoor_extraction_complete:
  assumes "set outdoor_cols \<subseteq> set (columns df)"
  shows "\<exists>od. outdoor_data df = Inr od
     \<and> length od = length (rows df)
     \<and> (\<forall>i < length (rows df).
          od ! i =
            [(rows df ! i) ''Timestamp'', (rows df ! i) ''Cooling'', (rows df ! i) ''Heating'',
             (rows df ! i) ''Air_temperature'', (rows df ! i) ''Relative_humidity'',
             (rows df ! i) ''Wind_speed'', (rows df ! i) ''Rain'',
             (rows df ! i) ''Solar_radiation'', (rows df ! i) ''Lighting'',
             (rows df ! i) ''outdoor_dew_point'', (rows df ! i) ''Outdoor_Heat_Index''])
     \<and> map sql_name outdoor_cols = map sql_name outdoor_insert_columns
     \<and> (\<forall>parse zscan mscan src db. load_csv parse src = Inr df \<longrightarrow>
          HourlyOutdoorReadings (final_db (main parse zscan mscan src db)) =
            HourlyOutdoorReadings db @
              (if list_all (list_all bindable) od then map (map sql_value) od else []))
     \<and> (\<forall>parse raw. load_csv parse (Loaded raw) = Inr df \<longrightarrow>
          length (rows raw) = length (rows df) \<and>
          (\<forall>i < length (rows df). \<forall>c \<in> set (tl outdoor_cols). (rows df ! i) c = (rows raw ! i) c))"
proof -
  let ?od = "map (\<lambda>r. map r outdoor_cols) (rows df)"
  have a: "outdoor_data df = Inr ?od"
    using assms by (rule outdoor_data_present)
  have b: "\<forall>i < length (rows df).
          ?od ! i =
            [(rows df ! i) ''Timestamp'', (rows df ! i) ''Cooling'', (rows df ! i) ''Heating'',
             (rows df ! i) ''Air_temperature'', (rows df ! i) ''Relative_humidity'',
             (rows df ! i) ''Wind_speed'', (rows df ! i) ''Rain'',
             (rows df ! i) ''Solar_radiation'', (rows df ! i) ''Lighting'',
             (rows df ! i) ''outdoor_dew_point'', (rows df ! i) ''Outdoor_Heat_Index'']"
    by (simp add: outdoor_cols_def)
  have c: "map sql_name outdoor_cols = map sql_name outdoor_insert_columns"
    by code_simp
  have d: "\<forall>parse zscan mscan src db. load_csv parse src = Inr df \<longrightarrow>
          HourlyOutdoorReadings (final_db (main parse zscan mscan src db)) =
            HourlyOutdoorReadings db @
              (if list_all (list_all bindable) ?od then map (map sql_value) ?od else [])"
    using a outdoor_table_after_main by blast
  have e: "\<forall>parse raw. load_csv parse (Loaded raw) = Inr df \<longrightarrow>
          length (rows raw) = length (rows df) \<and>
          (\<forall>i < length (rows df). \<forall>c \<in> set (tl outdoor_cols). (rows df ! i) c = (rows raw ! i) c)"
  proof (intro allI impI)
    fix parse raw assume l: "load_csv parse (Loaded raw) = Inr df"
    have n: "c \<noteq> ''Timestamp''" if "c \<in> set (tl outdoor_cols)" for c
      using that by (auto simp: outdoor_cols_def)
    from load_csv_rows(1) [OF l] load_csv_rows(3) [OF l] n
    show "length (rows raw) = length (rows df) \<and>
          (\<forall>i < length (rows df). \<forall>c \<in> set (tl outdoor_cols). (rows df ! i) c = (rows raw ! i) c)"
      by simp
  qed
  from a b c d e show ?thesis
    by (intro exI [of _ ?od] conjI) simp_all
qed

theorem outdoor_extraction_complete_witness:
  "set outdoor_cols \<subseteq> set (columns example_frame)
   \<and> outdoor_data example_frame =
       Inr [[Str ''2024-01-01 00:00:00'', NaN, NaN, Num 5, NaN, NaN, NaN, NaN, NaN, NaN, NaN]]
   \<and> length (rows example_frame) = 1"
proof -
  have c: "set outdoor_cols \<subseteq> set (columns example_frame)"
    by code_simp
  have e: "outdoor_data example_frame =
       Inr [[Str ''2024-01-01 00:00:00'', NaN, NaN, Num 5, NaN, NaN, NaN, NaN, NaN, NaN, NaN]]"
    by code_simp
  from outdoor_extraction_complete [OF c] have "\<exists>od. outdoor_data example_frame = Inr od \<and> length od = length (rows example_frame)"
    by blast
  with c e show ?thesis
    by auto
qed

section \<open>Null normalization\<close>

lemma zone_values_normalized:
  assumes "unpivot df zns zmap mmap = Inr (batch, out)" and "(ts, zid, mid, v) \<in> set batch"
  shows "v \<noteq> NaN"
proof -
  from assms have "(ts, zid, mid, v) \<in> set (unpivot_spec df zns zmap mmap)"
    by (rule unpivot_batch_spec)
  then show ?thesis
    by (auto simp: in_unpivot_spec in_reading_spec split: if_splits)
qed




section \<open>Timestamps and load failures\<close>







text \<open>
  C9, as amended. The load block ends the run with \<open>SourceNotFound\<close> when the reader raises
  \<open>FileNotFoundError\<close>, with \<open>SourceEmpty\<close> when it raises \<open>EmptyDataError\<close>, and with
  \<open>SourceMalformed\<close> on any other exception: another reader error, a frame without a
  \<open>Timestamp\<close> column, a \<open>Timestamp\<close> cell that does not parse. A frame the reader returns
  never ends in \<open>SourceEmpty\<close>. Whenever the load block fails, the run ends there: no
  connection is opened and the database is as it was; when it succeeds, the connection is
  opened.
\<close>

theorem load_failures_abort_before_database:
  "load_csv parse FileNotFoundError = Inl SourceNotFound
   \<and> load_csv parse EmptyDataError = Inl SourceEmpty
   \<and> load_csv parse OtherReadError = Inl SourceMalformed
   \<and> (''Timestamp'' \<notin> set (columns df) \<longrightarrow> load_csv parse (Loaded df) = Inl SourceMalformed)
   \<and> ((\<exists>r \<in> set (rows df). \<not> isna (r ''Timestamp'') \<and> parse (r ''Timestamp'') = ParseError) \<longrightarrow>
        load_csv parse (Loaded df) = Inl SourceMalformed)
   \<and> (load_csv parse (Loaded df) = Inl e \<longrightarrow> e = SourceMalformed)
   \<and> (load_csv parse src = Inl e \<longrightarrow>
        main parse zscan mscan src db =
          \<lparr>status = LoadAborted e, connected = False, final_db = db, warnings = []\<rparr>)
   \<and> ((\<exists>df'. load_csv parse src = Inr df') \<longrightarrow> connected (main parse zscan mscan src db))"
proof -
  have a: "load_csv parse (Loaded df) = Inl SourceMalformed"
    if "\<exists>r \<in> set (rows df). \<not> isna (r ''Timestamp'') \<and> parse (r ''Timestamp'') = ParseError"
  proof -
    from that have "\<exists>v \<in> set (map (\<lambda>r. r ''Timestamp'') (rows df)). to_datetime_cell parse v = ParseError"
      by (auto simp: to_datetime_cell_def)
    then have "to_datetime parse (map (\<lambda>r. r ''Timestamp'') (rows df)) = None"
      by (simp only: to_datetime_None)
    then show ?thesis
      by (simp add: load_csv_def)
  qed
  have b: "e = SourceMalformed" if "load_csv parse (Loaded df) = Inl e"
    using that by (auto simp: load_csv_def split: if_splits option.splits)
  have c: "connected (main parse zscan mscan src db)" if "\<exists>df'. load_csv parse src = Inr df'"
    using that by (auto simp: main_def Let_def split: sum.splits prod.splits)
  have d: "main parse zscan mscan src db =
      \<lparr>status = LoadAborted e, connected = False, final_db = db, warnings = []\<rparr>"
    if "load_csv parse src = Inl e"
    using that by (simp add: main_def)
  have e: "load_csv parse FileNotFoundError = Inl SourceNotFound"
    "load_csv parse EmptyDataError = Inl SourceEmpty"
    "load_csv parse OtherReadError = Inl SourceMalformed"
    "''Timestamp'' \<notin> set (columns df) \<longrightarrow> load_csv parse (Loaded df) = Inl SourceMalformed"
    by (simp_all add: load_csv_def)
  from a b c d e show ?thesis
    by blast
qed

theorem load_failures_abort_before_database_witness:
  "load_csv example_parse EmptyDataError = Inl SourceEmpty
   \<and> main example_parse scan_by_rowid scan_by_name EmptyDataError example_db =
       \<lparr>status = LoadAborted SourceEmpty, connected = False, final_db = example_db, warnings = []\<rparr>
   \<and> main example_parse scan_by_rowid scan_by_name (Loaded \<lparr>columns = [''Z1_temp''], rows = []\<rparr>) example_db =
       \<lparr>status = LoadAborted SourceMalformed, connected = False, final_db = example_db, warnings = []\<rparr>"
proof -
  let ?f = "\<lparr>columns = [''Z1_temp''], rows = []\<rparr> :: dataframe"
  note t = load_failures_abort_before_database
    [of example_parse ?f SourceMalformed "Loaded ?f" scan_by_rowid scan_by_name example_db]
  note u = load_failures_abort_before_database
    [of example_parse ?f SourceEmpty EmptyDataError scan_by_rowid scan_by_name example_db]
  have "''Timestamp'' \<notin> set (columns ?f)"
    by simp
  with t have "main example_parse scan_by_rowid scan_by_name (Loaded ?f) example_db =
       \<lparr>status = LoadAborted SourceMalformed, connected = False, final_db = example_db, warnings = []\<rparr>"
    by blast
  with u show ?thesis
    by blast
qed

text \<open>
  A run on the table with zero rows (a header line and no data line): the load block
  succeeds, the connection is opened and the reference tables are written.
\<close>

theorem zero_rows_counterexample:
  "rows header_only_frame = []
   \<and> status (main example_parse scan_by_rowid scan_by_name (Loaded header_only_frame) empty_db)
       = Completed
   \<and> connected (main example_parse scan_by_rowid scan_by_name (Loaded header_only_frame) empty_db)
       = True
   \<and> Zones (final_db (main example_parse scan_by_rowid scan_by_name (Loaded header_only_frame)
        empty_db)) = [(1, ''Z1'')]
   \<and> length (Measurements (final_db (main example_parse scan_by_rowid scan_by_name
        (Loaded header_only_frame) empty_db))) = 23"
  by code_simp

section \<open>Lookup maps\<close>

lemma keys_fold_update:
  "fst ` set (fold (\<lambda>r d. AList.update (k r) (v r) d) rs d0) = k ` set rs \<union> fst ` set d0"
  by (induction rs arbitrary: d0) (auto simp: dom_update)

lemma keys_zone_id_map:
  "set (zscan (Zones db)) = set (Zones db) \<Longrightarrow>
   fst ` set (zone_id_map zscan db) = snd ` set (Zones db)"
  by (simp add: zone_id_map_def keys_fold_update)

lemma keys_measurement_id_map:
  "set (mscan (Measurements db)) = set (Measurements db) \<Longrightarrow>
   fst ` set (measurement_id_map mscan db) = (\<lambda>r. fst (snd r)) ` set (Measurements db)"
  by (simp add: measurement_id_map_def keys_fold_update)

lemma map_of_key: "k \<in> fst ` set d \<Longrightarrow> \<exists>v. map_of d k = Some v"
  by (cases "map_of d k") (auto simp: map_of_eq_None_iff)

lemma zone_names_resolved:
  assumes "z \<in> set (zone_names df)"
    and "mset (zscan (Zones (resolve_references df db))) = mset (Zones (resolve_references df db))"
  shows "\<exists>zid. map_of (zone_id_map zscan (resolve_references df db)) z = Some zid"
proof -
  from assms(1) have "z \<in> snd ` set (Zones (resolve_references df db))"
    by (simp add: Zones_resolve_references names_fold_zone)
  moreover from assms(2)
  have "set (zscan (Zones (resolve_references df db))) = set (Zones (resolve_references df db))"
    by (rule mset_eq_setD)
  ultimately show ?thesis
    by (simp add: map_of_key keys_zone_id_map)
qed

lemma earlier_measurement_resolved:
  assumes "(mid, m, u) \<in> set (Measurements db)"
    and "mset (mscan (Measurements (resolve_references df db))) =
         mset (Measurements (resolve_references df db))"
  shows "\<exists>mid'. map_of (measurement_id_map mscan (resolve_references df db)) m = Some mid'"
proof -
  from assms(1) have "m \<in> (\<lambda>r. fst (snd r)) ` set (Measurements db)"
    by force
  then have "m \<in> (\<lambda>r. fst (snd r)) ` set (Measurements (resolve_references df db))"
    by (simp add: Measurements_resolve_references names_fold_measurement)
  moreover from assms(2)
  have "set (mscan (Measurements (resolve_references df db))) =
        set (Measurements (resolve_references df db))"
    by (rule mset_eq_setD)
  ultimately show ?thesis
    by (simp add: map_of_key keys_measurement_id_map)
qed

text \<open>With names that are unique in the table, the map gives a name the key of its row.\<close>

lemma fold_update_distinct:
  "distinct (map k rs) \<Longrightarrow> k ` set rs \<inter> fst ` set d0 = {} \<Longrightarrow>
   fold (\<lambda>r d. AList.update (k r) (v r) d) rs d0 = d0 @ map (\<lambda>r. (k r, v r)) rs"
proof (induction rs arbitrary: d0)
  case Nil
  then show ?case by simp
next
  case (Cons r rs)
  from Cons.prems have n: "k r \<notin> fst ` set d0"
    by auto
  then have u: "AList.update (k r) (v r) d0 = d0 @ [(k r, v r)]"
    by (induction d0) auto
  from Cons.prems have "k ` set rs \<inter> fst ` set (d0 @ [(k r, v r)]) = {}"
    by auto
  with Cons.IH [of "d0 @ [(k r, v r)]"] Cons.prems u show ?case
    by simp
qed

lemma measurement_id_map_distinct:
  assumes "distinct (map (\<lambda>r. fst (snd r)) (Measurements db))"
    and "mset (mscan (Measurements db)) = mset (Measurements db)"
    and "(mid, m, u) \<in> set (Measurements db)"
  shows "map_of (measurement_id_map mscan db) m = Some mid"
proof -
  let ?rs = "mscan (Measurements db)"
  from assms(2) have "mset (map (\<lambda>r. fst (snd r)) ?rs) = mset (map (\<lambda>r. fst (snd r)) (Measurements db))"
    by (simp only: mset_map)
  from mset_eq_imp_distinct_iff [OF this] assms(1) have d: "distinct (map (\<lambda>r. fst (snd r)) ?rs)"
    by simp
  from assms(2) have "set ?rs = set (Measurements db)"
    by (rule mset_eq_setD)
  with assms(3) have i: "(mid, m, u) \<in> set ?rs"
    by simp
  have "measurement_id_map mscan db = map (\<lambda>r. (fst (snd r), fst r)) ?rs"
    using d by (simp add: measurement_id_map_def fold_update_distinct)
  moreover have "distinct (map fst (map (\<lambda>r. (fst (snd r), fst r)) ?rs))"
    using d by (simp add: comp_def)
  moreover have "(m, mid) \<in> set (map (\<lambda>r. (fst (snd r), fst r)) ?rs)"
    using i by force
  ultimately show ?thesis
    by simp
qed

lemma earlier_measurement_key:
  assumes "distinct (map (\<lambda>r. fst (snd r)) (Measurements db))"
    and "mset (mscan (Measurements (resolve_references df db))) =
         mset (Measurements (resolve_references df db))"
    and "(mid, m, u) \<in> set (Measurements db)"
  shows "map_of (measurement_id_map mscan (resolve_references df db)) m = Some mid"
proof -
  let ?db = "resolve_references df db"
  have "prefix (Measurements db) (Measurements ?db)"
    by (simp add: Measurements_resolve_references prefix_fold_measurement)
  with assms(3) have "(mid, m, u) \<in> set (Measurements ?db)"
    by (auto dest: set_mono_prefix)
  moreover have "distinct (map (\<lambda>r. fst (snd r)) (Measurements ?db))"
    using assms(1) by (simp add: Measurements_resolve_references distinct_fold_measurement)
  ultimately show ?thesis
    using assms(2) by (simp add: measurement_id_map_distinct)
qed

text \<open>
  C10, as amended. Whatever the order in which the two unordered queries return the rows
  of the reference tables, the zone block of a run raises nothing on a frame with its
  \<open>Timestamp\<close> column, and its batch is the unpivot over the zone list derived from the
  source columns and the two lookup maps read back from the database after the upsert.
  A measurement name that the database held before the run and that is not a global one,
  whether the catalog has it or not, yields a tuple for every source row and every derived
  zone whose column \<open><zone>_<measurement>\<close> exists, under the key the measurement map gives
  it (the key of its row when names are unique). Every tuple carries the key of a zone of
  the derived zone list, so a zone name that only the database holds yields no tuple.
\<close>

theorem lookup_maps_drive_unpivot:
  assumes "''Timestamp'' \<in> set (columns df)"
    and "mset (zscan (Zones (resolve_references df db))) = mset (Zones (resolve_references df db))"
    and "mset (mscan (Measurements (resolve_references df db))) =
         mset (Measurements (resolve_references df db))"
  shows "\<exists>batch out. zone_phase zscan mscan df db = Inr (batch, out)
     \<and> batch = unpivot_spec df (zone_names df) (zone_id_map zscan (resolve_references df db))
                 (measurement_id_map mscan (resolve_references df db))
     \<and> (\<forall>mid m u z r.
          (mid, m, u) \<in> set (Measurements db) \<and> m \<notin> set global_measurements \<and>
          z \<in> set (zone_names df) \<and> z @ ''_'' @ m \<in> set (columns df) \<and> r \<in> set (rows df) \<longrightarrow>
          (\<exists>zid mid' v. (r ''Timestamp'', zid, mid', v) \<in> set batch \<and>
             map_of (zone_id_map zscan (resolve_references df db)) z = Some zid \<and>
             map_of (measurement_id_map mscan (resolve_references df db)) m = Some mid' \<and>
             (distinct (map (\<lambda>r. fst (snd r)) (Measurements db)) \<longrightarrow> mid' = mid)))
     \<and> (\<forall>t \<in> set batch. \<exists>z \<in> set (zone_names df).
          map_of (zone_id_map zscan (resolve_references df db)) z = Some (fst (snd t)))"
proof -
  let ?db = "resolve_references df db"
  let ?zm = "zone_id_map zscan ?db"
  let ?mm = "measurement_id_map mscan ?db"
  let ?batch = "unpivot_spec df (zone_names df) ?zm ?mm"
  have a: "zone_phase zscan mscan df db =
      Inr (?batch, concat (map (\<lambda>r. warnings_spec ?zm (zone_names df)) (rows df)))"
    using assms(1) by (simp add: zone_phase_def unpivot_eq Let_def)
  have b: "\<exists>zid mid' v. (r ''Timestamp'', zid, mid', v) \<in> set ?batch \<and>
             map_of ?zm z = Some zid \<and> map_of ?mm m = Some mid' \<and>
             (distinct (map (\<lambda>r. fst (snd r)) (Measurements db)) \<longrightarrow> mid' = mid)"
    if m: "(mid, m, u) \<in> set (Measurements db)" and g: "m \<notin> set global_measurements"
      and z: "z \<in> set (zone_names df)" and c: "z @ ''_'' @ m \<in> set (columns df)"
      and r: "r \<in> set (rows df)"
    for mid m u z r
  proof -
    from zone_names_resolved [where zscan = zscan and df = df and db = db and z = z] z assms(2)
    obtain zid where zid: "map_of ?zm z = Some zid"
      by blast
    from earlier_measurement_resolved [where mscan = mscan and df = df and db = db and m = m] m assms(3)
    obtain mid' where mid': "map_of ?mm m = Some mid'"
      by blast
    then have e: "(m, mid') \<in> set ?mm"
      by (rule map_of_SomeD)
    let ?v = "if r (z @ ''_'' @ m) = NaN then PyNone else r (z @ ''_'' @ m)"
    have "(r ''Timestamp'', zid, mid', ?v) \<in> set (reading_spec df ?zm r z (m, mid'))"
      using zid g c by (simp add: in_reading_spec)
    with r z e have "(r ''Timestamp'', zid, mid', ?v) \<in> set ?batch"
      unfolding in_unpivot_spec by blast
    moreover have "mid' = mid" if "distinct (map (\<lambda>r. fst (snd r)) (Measurements db))"
      using earlier_measurement_key [where mscan = mscan and df = df and db = db and m = m and mid = mid]
        that assms(3) m mid' by simp
    ultimately show ?thesis
      using zid mid' by blast
  qed
  have c: "\<forall>t \<in> set ?batch. \<exists>z \<in> set (zone_names df). map_of ?zm z = Some (fst (snd t))"
    by (auto simp: in_unpivot_spec in_reading_spec)
  from a b c show ?thesis
    by blast
qed

theorem lookup_maps_drive_unpivot_witness:
  "''Timestamp'' \<in> set (columns example_frame)
   \<and> (40, ''foo'', ''u'') \<in> set (Measurements example_db)
   \<and> ''foo'' \<notin> set (map fst measurements_to_insert)
   \<and> zone_names example_frame = [''Z1'']
   \<and> (\<exists>zid v. (Str ''2024-01-01 00:00:00'', zid, 40, v) \<in> set (unpivot_spec example_frame (zone_names example_frame)
          (zone_id_map scan_by_rowid (resolve_references example_frame example_db))
          (measurement_id_map scan_by_name (resolve_references example_frame example_db))))"
proof -
  have c: "''Timestamp'' \<in> set (columns example_frame)"
    by (simp add: example_frame_def example_columns_def)
  have s: "mset (scan_by_rowid (Zones (resolve_references example_frame example_db))) =
           mset (Zones (resolve_references example_frame example_db))"
    "mset (scan_by_name (Measurements (resolve_references example_frame example_db))) =
     mset (Measurements (resolve_references example_frame example_db))"
    by (simp_all add: scan_by_rowid_def scan_by_name_def)
  have m: "(40, ''foo'', ''u'') \<in> set (Measurements example_db)"
    "distinct (map (\<lambda>r. fst (snd r)) (Measurements example_db))"
    by (simp_all add: example_db_def)
  have g: "''foo'' \<notin> set global_measurements" "''foo'' \<notin> set (map fst measurements_to_insert)"
    by (simp_all add: global_measurements_def measurements_to_insert_def)
  have z: "zone_names example_frame = [''Z1'']"
    by code_simp
  have k: "''Z1'' @ ''_'' @ ''foo'' \<in> set (columns example_frame)"
    by (simp add: example_frame_def example_columns_def)
  have r: "example_row \<in> set (rows example_frame)" "example_row ''Timestamp'' = Str ''2024-01-01 00:00:00''"
    by (simp_all add: example_frame_def example_row_def)
  from lookup_maps_drive_unpivot
    [where df = example_frame and db = example_db and zscan = scan_by_rowid and mscan = scan_by_name]
    c s m g(1) z k r
  have "\<exists>zid v. (Str ''2024-01-01 00:00:00'', zid, 40, v) \<in> set (unpivot_spec example_frame (zone_names example_frame)
          (zone_id_map scan_by_rowid (resolve_references example_frame example_db))
          (measurement_id_map scan_by_name (resolve_references example_frame example_db)))"
    by (metis list.set_intros(1))
  with c m(1) g(2) z show ?thesis
    by blast
qed

text \<open>
  A database that already holds zone \<open>Z9\<close>, a source with a column \<open>Z9_RH\<close> and no column
  that makes \<open>Z9\<close> a derived zone, the measurements scanned in the order of their names:
  both lookup maps resolve the names, and the batch has no tuple under the key of \<open>Z9\<close>.
\<close>

theorem database_only_zone_counterexample:
  "(7, ''Z9'') \<in> set (Zones example_db)
   \<and> ''Z9_RH'' \<in> set (columns example_frame)
   \<and> map_of (zone_id_map scan_by_rowid (resolve_references example_frame example_db)) ''Z9'' = Some 7
   \<and> map_of (measurement_id_map scan_by_name (resolve_references example_frame example_db)) ''RH''
       = Some 42
   \<and> zone_phase scan_by_rowid scan_by_name example_frame example_db =
       Inr ([(Str ''2024-01-01 00:00:00'', 8, 43, PyNone),
             (Str ''2024-01-01 00:00:00'', 8, 40, Num 3),
             (Str ''2024-01-01 00:00:00'', 8, 41, Num 21.5)], [])"
  by code_simp

end
